theory Spec2Isabelle
  imports Main
begin

section \<open>Data model\<close>

text \<open>
  Identifiers are the store's ObjectIds, in canonical form; two identifiers are the same
  exactly when their \<^verbatim>\<open>toString()\<close> renderings are (which is how the handlers compare them).
\<close>

type_synonym objectId = nat

text \<open>
  Modelled from the spec: the User schema (models/User.js) is not among the sources. The
  fields are those the spec's data model lists and the routers read or write.
\<close>

record user =
  u_id :: objectId
  u_name :: string
  u_username :: string
  u_email :: string
  u_password :: string
  u_profilePicture :: "string option"
  u_coverPhoto :: "string option"
  u_bio :: string
  u_location :: string
  u_website :: string
  u_isVerified :: bool
  u_followers :: "objectId list"
  u_following :: "objectId list"

text \<open>
  models/Tweet.js. The schema option \<^verbatim>\<open>timestamps: true\<close> adds \<^verbatim>\<open>createdAt\<close> and
  \<^verbatim>\<open>updatedAt\<close>; times are clock readings (milliseconds). The schema does not turn
  the version key off, so every stored tweet also has \<^verbatim>\<open>__v\<close> (here \<open>t_v\<close>), 0 when
  the document is created.
\<close>

record tweet =
  t_id :: objectId
  t_user :: objectId
  t_content :: string
  t_image :: "string option"
  t_likes :: "objectId list"
  t_retweets :: "objectId list"
  t_comments :: "objectId list"
  t_parent :: "objectId option"
  t_isRetweet :: bool
  t_createdAt :: nat
  t_updatedAt :: nat
  t_v :: nat

text \<open>
  models/Comment.js, with the same \<^verbatim>\<open>timestamps: true\<close> and the same version key
  \<^verbatim>\<open>__v\<close> (here \<open>c_v\<close>).
\<close>

record comment =
  c_id :: objectId
  c_user :: objectId
  c_tweet :: objectId
  c_content :: string
  c_likes :: "objectId list"
  c_createdAt :: nat
  c_updatedAt :: nat
  c_v :: nat

text \<open>
  The document store: one collection per model, each a sequence of documents in the
  store's native (insertion) order.
\<close>

record db =
  users :: "user list"
  tweets :: "tweet list"
  comments :: "comment list"

text \<open>
  What a handler answers when it does not succeed: the status code and the body of
  \<^verbatim>\<open>res.status(n).json(...)\<close>. \<open>ValidationError\<close> carries the messages of the
  validators' error array.
\<close>

datatype error =
    ValidationError "string list"
  | BadRequest string
  | Unauthorized string
  | NotFound string
  | ServerError string

fun status :: "error \<Rightarrow> nat" where
  "status (ValidationError _) = 400"
| "status (BadRequest _) = 400"
| "status (Unauthorized _) = 401"
| "status (NotFound _) = 404"
| "status (ServerError _) = 500"

section \<open>Store primitives\<close>

text \<open>
  \<^verbatim>\<open>Model.findById(id)\<close>: the first document with that identifier, or null.
\<close>

definition findById :: "('a \<Rightarrow> objectId) \<Rightarrow> objectId \<Rightarrow> 'a list \<Rightarrow> 'a option" where
  "findById idf i ds = find (\<lambda>d. idf d = i) ds"

text \<open>
  \<^verbatim>\<open>Model.findByIdAndUpdate(id, upd)\<close> and \<^verbatim>\<open>doc.save()\<close> of a fetched document: the
  update is applied to the first document with that identifier; no document, no change.
\<close>

fun findByIdAndUpdate :: "('a \<Rightarrow> objectId) \<Rightarrow> objectId \<Rightarrow> ('a \<Rightarrow> 'a) \<Rightarrow> 'a list \<Rightarrow> 'a list" where
  "findByIdAndUpdate idf i f [] = []"
| "findByIdAndUpdate idf i f (d # ds) =
     (if idf d = i then f d # ds else d # findByIdAndUpdate idf i f ds)"

text \<open>\<^verbatim>\<open>doc.deleteOne()\<close>: removes the (first) document with the identifier of \<open>doc\<close>.\<close>

fun deleteOne :: "('a \<Rightarrow> objectId) \<Rightarrow> objectId \<Rightarrow> 'a list \<Rightarrow> 'a list" where
  "deleteOne idf i [] = []"
| "deleteOne idf i (d # ds) = (if idf d = i then ds else d # deleteOne idf i ds)"

text \<open>\<^verbatim>\<open>Model.deleteMany(filter)\<close>: removes every document the filter matches.\<close>

definition deleteMany :: "('a \<Rightarrow> bool) \<Rightarrow> 'a list \<Rightarrow> 'a list" where
  "deleteMany P ds = filter (\<lambda>d. \<not> P d) ds"

text \<open>The update operators \<^verbatim>\<open>$pull\<close> (removes every occurrence) and \<^verbatim>\<open>$push\<close> (appends).\<close>

definition pull :: "objectId \<Rightarrow> objectId list \<Rightarrow> objectId list" where
  "pull i xs = filter (\<lambda>x. x \<noteq> i) xs"

definition push :: "objectId \<Rightarrow> objectId list \<Rightarrow> objectId list" where
  "push i xs = xs @ [i]"

text \<open>\<^verbatim>\<open>.sort({ createdAt: -1 })\<close>: newest first.\<close>

definition sortDesc :: "('a \<Rightarrow> nat) \<Rightarrow> 'a list \<Rightarrow> 'a list" where
  "sortDesc key ds = rev (sort_key key ds)"

section \<open>Likes (routes/tweets.js and the comments router)\<close>

text \<open>
  The body both like handlers share:
  \<^verbatim>\<open>if (doc.likes.includes(me)) doc.likes = doc.likes.filter(l => l.toString() !== me.toString());
  else doc.likes.unshift(me);\<close>
\<close>

definition toggleLike :: "objectId \<Rightarrow> objectId list \<Rightarrow> objectId list" where
  "toggleLike me likes =
     (if me \<in> set likes then filter (\<lambda>like. like \<noteq> me) likes else me # likes)"

text \<open>
  \<^verbatim>\<open>POST api/tweets/:id/like\<close>. \<open>now\<close> is the clock reading at \<^verbatim>\<open>tweet.save()\<close>, which,
  the document being modified, also sets \<^verbatim>\<open>updatedAt\<close>, and, the likes array being
  written as a whole in both branches, increments the version key. Answers the new likes.
\<close>

definition likeTweet :: "db \<Rightarrow> objectId \<Rightarrow> objectId \<Rightarrow> nat \<Rightarrow> (error + objectId list) \<times> db" where
  "likeTweet s me i now =
     (case findById t_id i (tweets s) of
        None \<Rightarrow> (Inl (NotFound ''Tweet not found''), s)
      | Some tw \<Rightarrow>
          (let likes' = toggleLike me (t_likes tw) in
           (Inr likes',
            s\<lparr>tweets := findByIdAndUpdate t_id i
                 (\<lambda>d. d\<lparr>t_likes := likes', t_updatedAt := now, t_v := t_v d + 1\<rparr>) (tweets s)\<rparr>)))"

text \<open>\<^verbatim>\<open>POST api/comments/:id/like\<close>, the same on a comment.\<close>

definition likeComment :: "db \<Rightarrow> objectId \<Rightarrow> objectId \<Rightarrow> nat \<Rightarrow> (error + objectId list) \<times> db" where
  "likeComment s me i now =
     (case findById c_id i (comments s) of
        None \<Rightarrow> (Inl (NotFound ''Comment not found''), s)
      | Some cm \<Rightarrow>
          (let likes' = toggleLike me (c_likes cm) in
           (Inr likes',
            s\<lparr>comments := findByIdAndUpdate c_id i
                 (\<lambda>d. d\<lparr>c_likes := likes', c_updatedAt := now, c_v := c_v d + 1\<rparr>) (comments s)\<rparr>)))"

section \<open>Tweets (routes/tweets.js)\<close>

text \<open>
  A request field that may be missing; the validators and \<^verbatim>\<open>||\<close> read a missing field as
  the empty string.
\<close>

definition str :: "string option \<Rightarrow> string" where
  "str v = (case v of None \<Rightarrow> [] | Some x \<Rightarrow> x)"

text \<open>
  \<^verbatim>\<open>populate('user', 'name username profilePicture [isVerified]')\<close>: the author's
  identifier is replaced by the selected fields of the author's record, or by null when
  there is no such user.
\<close>

record userSummary =
  s_id :: objectId
  s_name :: string
  s_username :: string
  s_profilePicture :: "string option"
  s_isVerified :: "bool option"

definition summary :: "bool \<Rightarrow> user \<Rightarrow> userSummary" where
  "summary withVerified u =
     \<lparr>s_id = u_id u, s_name = u_name u, s_username = u_username u,
      s_profilePicture = u_profilePicture u,
      s_isVerified = (if withVerified then Some (u_isVerified u) else None)\<rparr>"

type_synonym populatedTweet = "tweet \<times> userSummary option"

definition populateTweet :: "bool \<Rightarrow> user list \<Rightarrow> tweet \<Rightarrow> populatedTweet" where
  "populateTweet withVerified us tw =
     (tw, map_option (summary withVerified) (findById u_id (t_user tw) us))"

text \<open>
  \<^verbatim>\<open>POST api/tweets\<close>: the text field and the uploaded image (\<^verbatim>\<open>req.file.path\<close>), if any.
\<close>

record tweetRequest =
  body_content :: "string option"
  file_path :: "string option"

text \<open>
  The route's validators are built when the module is loaded:
  \<^verbatim>\<open>check('content', 'Content is required').not().isEmpty().unless((value, { req }) => req.file)\<close>
  and \<^verbatim>\<open>check('content', 'Content cannot exceed 280 characters').isLength({ max: 280 })\<close>.
  A validation chain of the validator library has its validators and the modifiers
  \<^verbatim>\<open>bail\<close>, \<^verbatim>\<open>custom\<close>, \<^verbatim>\<open>exists\<close>, \<^verbatim>\<open>if\<close>, \<^verbatim>\<open>not\<close>, \<^verbatim>\<open>optional\<close> and \<^verbatim>\<open>withMessage\<close>;
  it has no \<^verbatim>\<open>unless\<close>. Calling a property that is not there throws a TypeError.
\<close>

datatype exception = TypeError string

definition chainMethods :: "string list" where
  "chainMethods =
     [''bail'', ''custom'', ''exists'', ''if'', ''isEmail'', ''isEmpty'', ''isLength'', ''not'',
      ''optional'', ''withMessage'']"

fun callChain :: "string list \<Rightarrow> exception + unit" where
  "callChain [] = Inr ()"
| "callChain (m # ms) =
     (if m \<in> set chainMethods then callChain ms
      else Inl (TypeError (m @ '' is not a function'')))"

text \<open>
  Loading routes/tweets.js makes the chain calls of its two validated routes in source
  order; the first that throws ends the load. server.js requires the module before it
  listens, so when the load throws no request is ever served.
\<close>

definition tweetsRouter_load :: "exception + unit" where
  "tweetsRouter_load =
     callChain [''not'', ''isEmpty'', ''unless'', ''isLength'', ''not'', ''isEmpty'', ''isLength'']"

text \<open>
  The validators of TweetSchema that \<^verbatim>\<open>save()\<close> runs: \<^verbatim>\<open>content\<close> is
  \<^verbatim>\<open>required: [true, 'Please provide tweet content']\<close>, which for a String path rejects
  the empty string as well as a missing value, and has
  \<^verbatim>\<open>maxlength: [280, 'Tweet cannot be more than 280 characters']\<close>. (\<^verbatim>\<open>user\<close> is required
  too, and always given.)
\<close>

definition TweetSchema_validate :: "tweet \<Rightarrow> string list" where
  "TweetSchema_validate tw =
     (if t_content tw = [] then [''Please provide tweet content'']
      else if 280 < length (t_content tw) then [''Tweet cannot be more than 280 characters'']
      else [])"

text \<open>
  The handler of \<^verbatim>\<open>POST api/tweets\<close>. \<open>errors\<close> is what \<^verbatim>\<open>validationResult(req)\<close>
  holds when the handler runs, \<open>newId\<close> the identifier the store generates and
  \<open>now\<close> the clock reading at \<^verbatim>\<open>save()\<close>. A validation error thrown by \<^verbatim>\<open>save()\<close>
  lands in the \<^verbatim>\<open>catch\<close>, which answers 500. Success is answered with status 201.
\<close>

definition createTweet ::
  "db \<Rightarrow> objectId \<Rightarrow> string list \<Rightarrow> tweetRequest \<Rightarrow> objectId \<Rightarrow> nat \<Rightarrow>
   (error + populatedTweet) \<times> db" where
  "createTweet s me errors rq newId now =
     (if errors \<noteq> [] then (Inl (ValidationError errors), s)
      else
        (let newTweet =
           \<lparr>t_id = newId, t_user = me, t_content = str (body_content rq),
            t_image = file_path rq, t_likes = [], t_retweets = [], t_comments = [],
            t_parent = None, t_isRetweet = False, t_createdAt = now, t_updatedAt = now,
            t_v = 0\<rparr>
         in if TweetSchema_validate newTweet \<noteq> [] then (Inl (ServerError ''Server error''), s)
            else (Inr (populateTweet False (users s) newTweet),
                  s\<lparr>tweets := tweets s @ [newTweet]\<rparr>)))"

text \<open>
  The request as the server treats it: no answer (\<open>None\<close>) and no change when the
  router did not load, the handler's answer otherwise.
\<close>

definition postTweet ::
  "db \<Rightarrow> objectId \<Rightarrow> string list \<Rightarrow> tweetRequest \<Rightarrow> objectId \<Rightarrow> nat \<Rightarrow>
   (error + populatedTweet) option \<times> db" where
  "postTweet s me errors rq newId now =
     (case tweetsRouter_load of
        Inl e \<Rightarrow> (None, s)
      | Inr _ \<Rightarrow>
          (case createTweet s me errors rq newId now of (r, s') \<Rightarrow> (Some r, s')))"

text \<open>
  \<^verbatim>\<open>GET api/tweets/timeline\<close>. When the caller's record is gone, reading
  \<^verbatim>\<open>currentUser.following\<close> throws and the \<^verbatim>\<open>catch\<close> answers 500.
\<close>

definition getTimeline :: "db \<Rightarrow> objectId \<Rightarrow> error + populatedTweet list" where
  "getTimeline s me =
     (case findById u_id me (users s) of
        None \<Rightarrow> Inl (ServerError ''Server error'')
      | Some currentUser \<Rightarrow>
          Inr (map (populateTweet True (users s))
                 (take 50 (sortDesc t_createdAt
                    (filter (\<lambda>tw. t_user tw = me \<or> t_user tw \<in> set (u_following currentUser))
                       (tweets s))))))"

text \<open>\<^verbatim>\<open>GET api/tweets/:id\<close>.\<close>

definition getTweet :: "db \<Rightarrow> objectId \<Rightarrow> error + populatedTweet" where
  "getTweet s i =
     (case findById t_id i (tweets s) of
        None \<Rightarrow> Inl (NotFound ''Tweet not found'')
      | Some tw \<Rightarrow> Inr (populateTweet True (users s) tw))"

text \<open>\<^verbatim>\<open>DELETE api/tweets/:id\<close>.\<close>

definition deleteTweet :: "db \<Rightarrow> objectId \<Rightarrow> objectId \<Rightarrow> (error + string) \<times> db" where
  "deleteTweet s me i =
     (case findById t_id i (tweets s) of
        None \<Rightarrow> (Inl (NotFound ''Tweet not found''), s)
      | Some tw \<Rightarrow>
          if t_user tw \<noteq> me then (Inl (Unauthorized ''User not authorized''), s)
          else (Inr ''Tweet removed'',
                s\<lparr>comments := deleteMany (\<lambda>c. c_tweet c = i) (comments s),
                  tweets := deleteOne t_id (t_id tw) (tweets s)\<rparr>))"

section \<open>Comments (the comments router)\<close>

text \<open>
  \<^verbatim>\<open>DELETE api/comments/:id\<close>. The \<^verbatim>\<open>$pull\<close> on the parent tweet is an update of a schema
  with timestamps, so it sets the tweet's \<^verbatim>\<open>updatedAt\<close> to the clock reading \<open>now\<close>;
  an update query, unlike \<^verbatim>\<open>save()\<close>, leaves the version key alone.
\<close>

definition deleteComment :: "db \<Rightarrow> objectId \<Rightarrow> objectId \<Rightarrow> nat \<Rightarrow> (error + string) \<times> db" where
  "deleteComment s me i now =
     (case findById c_id i (comments s) of
        None \<Rightarrow> (Inl (NotFound ''Comment not found''), s)
      | Some cm \<Rightarrow>
          if c_user cm \<noteq> me then (Inl (Unauthorized ''User not authorized''), s)
          else (Inr ''Comment removed'',
                s\<lparr>tweets := findByIdAndUpdate t_id (c_tweet cm)
                     (\<lambda>tw. tw\<lparr>t_comments := pull (c_id cm) (t_comments tw), t_updatedAt := now\<rparr>)
                     (tweets s),
                  comments := deleteOne c_id (c_id cm) (comments s)\<rparr>))"

section \<open>Users (the users router)\<close>

text \<open>What \<^verbatim>\<open>res.json\<close> sends for a user: a document of named fields.\<close>

datatype json =
    JNull
  | JBool bool
  | JStr string
  | JId objectId
  | JArr "json list"
  | JObj "(string \<times> json) list"

definition JOpt :: "string option \<Rightarrow> json" where
  "JOpt v = (case v of None \<Rightarrow> JNull | Some x \<Rightarrow> JStr x)"

text \<open>The stored user document, the credential hash included.\<close>

definition user_json :: "user \<Rightarrow> (string \<times> json) list" where
  "user_json u =
     [(''_id'', JId (u_id u)), (''name'', JStr (u_name u)), (''username'', JStr (u_username u)),
      (''email'', JStr (u_email u)), (''password'', JStr (u_password u)),
      (''profilePicture'', JOpt (u_profilePicture u)), (''coverPhoto'', JOpt (u_coverPhoto u)),
      (''bio'', JStr (u_bio u)), (''location'', JStr (u_location u)),
      (''website'', JStr (u_website u)), (''isVerified'', JBool (u_isVerified u)),
      (''followers'', JArr (map JId (u_followers u))),
      (''following'', JArr (map JId (u_following u)))]"

text \<open>\<^verbatim>\<open>.select('-password')\<close> drops a field; a populate's field list keeps the named ones.\<close>

definition select_minus :: "string \<Rightarrow> (string \<times> json) list \<Rightarrow> (string \<times> json) list" where
  "select_minus k doc = filter (\<lambda>kv. fst kv \<noteq> k) doc"

definition select_only :: "string list \<Rightarrow> (string \<times> json) list \<Rightarrow> (string \<times> json) list" where
  "select_only ks doc = filter (\<lambda>kv. fst kv \<in> set ks) doc"

text \<open>
  \<^verbatim>\<open>.populate(path, fields)\<close>: each identifier in the array at \<open>path\<close> is replaced by
  the selected fields of the user it names; identifiers naming no user are left out.
\<close>

definition populated :: "user list \<Rightarrow> string list \<Rightarrow> json \<Rightarrow> json" where
  "populated us ks v =
     (case v of
        JArr ids \<Rightarrow>
          JArr (List.map_filter
                  (\<lambda>j. case j of
                          JId i \<Rightarrow> map_option (\<lambda>u. JObj (select_only ks (user_json u)))
                                     (findById u_id i us)
                        | _ \<Rightarrow> None) ids)
      | _ \<Rightarrow> v)"

definition populate ::
  "user list \<Rightarrow> string \<Rightarrow> string list \<Rightarrow> (string \<times> json) list \<Rightarrow> (string \<times> json) list" where
  "populate us path ks doc =
     map (\<lambda>kv. if fst kv = path then (fst kv, populated us ks (snd kv)) else kv) doc"

definition profileView :: "user list \<Rightarrow> user \<Rightarrow> json" where
  "profileView us u =
     JObj (populate us ''following'' [''_id'', ''name'', ''username'', ''profilePicture'']
            (populate us ''followers'' [''_id'', ''name'', ''username'', ''profilePicture'']
              (select_minus ''password'' (user_json u))))"

text \<open>\<^verbatim>\<open>GET api/users/me\<close>.\<close>

definition getMe :: "db \<Rightarrow> objectId \<Rightarrow> error + json" where
  "getMe s me =
     (case findById u_id me (users s) of
        None \<Rightarrow> Inl (NotFound ''User not found'')
      | Some u \<Rightarrow> Inr (profileView (users s) u))"

text \<open>\<^verbatim>\<open>GET api/users/:username\<close>.\<close>

definition getUserByUsername :: "db \<Rightarrow> string \<Rightarrow> error + json" where
  "getUserByUsername s name =
     (case find (\<lambda>u. u_username u = name) (users s) of
        None \<Rightarrow> Inl (NotFound ''User not found'')
      | Some u \<Rightarrow> Inr (profileView (users s) u))"

text \<open>
  \<^verbatim>\<open>PUT api/users\<close>: the four text fields of the body and the paths of the two uploaded
  images, each possibly missing.
\<close>

record profileRequest =
  body_name :: "string option"
  body_bio :: "string option"
  body_location :: "string option"
  body_website :: "string option"
  file_profilePicture :: "string option"
  file_coverPhoto :: "string option"

text \<open>\<^verbatim>\<open>if (name) ...\<close>: a missing field and the empty string are both falsy.\<close>

definition truthy :: "string option \<Rightarrow> bool" where
  "truthy v = (case v of None \<Rightarrow> False | Some x \<Rightarrow> x \<noteq> [])"

text \<open>The \<^verbatim>\<open>$set\<close> of the \<^verbatim>\<open>userFields\<close> object the handler builds.\<close>

definition userFields :: "profileRequest \<Rightarrow> user \<Rightarrow> user" where
  "userFields rq u =
     u\<lparr>u_name := (if truthy (body_name rq) then str (body_name rq) else u_name u),
       u_bio := (if truthy (body_bio rq) then str (body_bio rq) else u_bio u),
       u_location := (if truthy (body_location rq) then str (body_location rq) else u_location u),
       u_website := (if truthy (body_website rq) then str (body_website rq) else u_website u),
       u_profilePicture :=
         (case file_profilePicture rq of None \<Rightarrow> u_profilePicture u | Some p \<Rightarrow> Some p),
       u_coverPhoto :=
         (case file_coverPhoto rq of None \<Rightarrow> u_coverPhoto u | Some p \<Rightarrow> Some p)\<rparr>"

text \<open>
  The handler answers the updated document without the credential hash
  (\<^verbatim>\<open>{ new: true }\<close>, \<^verbatim>\<open>.select('-password')\<close>), or null when the caller's record is gone.
\<close>

definition updateProfile :: "db \<Rightarrow> objectId \<Rightarrow> profileRequest \<Rightarrow> (error + json) \<times> db" where
  "updateProfile s me rq =
     (let users' = findByIdAndUpdate u_id me (userFields rq) (users s) in
      (Inr (case findById u_id me users' of
              None \<Rightarrow> JNull
            | Some u \<Rightarrow> JObj (select_minus ''password'' (user_json u))),
       s\<lparr>users := users'\<rparr>))"

text \<open>
  \<^verbatim>\<open>toString()\<close> renders an ObjectId as 24 lower-case hexadecimal digits (identifiers
  are below \<open>16 ^ 24\<close>). A string is cast to an ObjectId, by \<^verbatim>\<open>findById\<close> and by the
  update operators, when it is 24 hexadecimal digits of either case; any other string
  makes the cast throw.
\<close>

definition hexDigit :: "nat \<Rightarrow> char" where
  "hexDigit d = ''0123456789abcdef'' ! d"

fun toHex :: "nat \<Rightarrow> nat \<Rightarrow> string" where
  "toHex 0 v = []"
| "toHex (Suc n) v = toHex n (v div 16) @ [hexDigit (v mod 16)]"

definition toString :: "objectId \<Rightarrow> string" where
  "toString i = toHex 24 i"

definition hexValue :: "char \<Rightarrow> nat option" where
  "hexValue c =
     map_of
       [(CHR ''0'', 0), (CHR ''1'', 1), (CHR ''2'', 2), (CHR ''3'', 3), (CHR ''4'', 4),
        (CHR ''5'', 5), (CHR ''6'', 6), (CHR ''7'', 7), (CHR ''8'', 8), (CHR ''9'', 9),
        (CHR ''a'', 10), (CHR ''b'', 11), (CHR ''c'', 12), (CHR ''d'', 13), (CHR ''e'', 14),
        (CHR ''f'', 15), (CHR ''A'', 10), (CHR ''B'', 11), (CHR ''C'', 12), (CHR ''D'', 13),
        (CHR ''E'', 14), (CHR ''F'', 15)] c"

fun fromHex :: "nat \<Rightarrow> string \<Rightarrow> nat option" where
  "fromHex acc [] = Some acc"
| "fromHex acc (c # cs) =
     (case hexValue c of None \<Rightarrow> None | Some d \<Rightarrow> fromHex (16 * acc + d) cs)"

definition castObjectId :: "string \<Rightarrow> objectId option" where
  "castObjectId p = (if length p = 24 then fromHex 0 p else None)"

text \<open>
  \<^verbatim>\<open>POST api/users/:id/follow\<close>: \<open>me\<close> is the caller and \<open>param\<close> the string
  \<^verbatim>\<open>req.params.id\<close> of the URL. The handler compares the string itself with the
  caller's rendering (\<^verbatim>\<open>req.params.id === req.user._id.toString()\<close>) and looks for the
  string itself among the renderings of the caller's following
  (\<^verbatim>\<open>currentUser.following.includes(req.params.id)\<close>), while \<^verbatim>\<open>findById\<close>, \<^verbatim>\<open>$pull\<close> and
  \<^verbatim>\<open>$push\<close> cast it. A cast that throws, and a caller whose record is gone (reading
  \<^verbatim>\<open>currentUser.following\<close> throws), land in the \<^verbatim>\<open>catch\<close>, which answers 500.
\<close>

definition followUser :: "db \<Rightarrow> objectId \<Rightarrow> string \<Rightarrow> (error + string) \<times> db" where
  "followUser s me param =
     (if param = toString me then (Inl (BadRequest ''You cannot follow yourself''), s)
      else
        (case castObjectId param of
           None \<Rightarrow> (Inl (ServerError ''Server error''), s)
         | Some i \<Rightarrow>
             (case findById u_id i (users s) of
                None \<Rightarrow> (Inl (NotFound ''User not found''), s)
              | Some userToFollow \<Rightarrow>
                  (case findById u_id me (users s) of
                     None \<Rightarrow> (Inl (ServerError ''Server error''), s)
                   | Some currentUser \<Rightarrow>
                       if param \<in> set (map toString (u_following currentUser)) then
                         (Inr ''User unfollowed'',
                          s\<lparr>users :=
                              findByIdAndUpdate u_id i
                                (\<lambda>u. u\<lparr>u_followers := pull me (u_followers u)\<rparr>)
                                (findByIdAndUpdate u_id me
                                   (\<lambda>u. u\<lparr>u_following := pull i (u_following u)\<rparr>) (users s))\<rparr>)
                       else
                         (Inr ''User followed'',
                          s\<lparr>users :=
                              findByIdAndUpdate u_id i
                                (\<lambda>u. u\<lparr>u_followers := push me (u_followers u)\<rparr>)
                                (findByIdAndUpdate u_id me
                                   (\<lambda>u. u\<lparr>u_following := push i (u_following u)\<rparr>)
                                   (users s))\<rparr>)))))"

section \<open>Registration (routes/auth.js)\<close>

text \<open>
  A field as \<^verbatim>\<open>check(field)\<close> finds it: in the body, the cookies, the headers, the route
  parameters and the query string of the request, in this order, each possibly missing.
  The handler itself reads the body only.
\<close>

record located =
  in_body :: "string option"
  in_cookies :: "string option"
  in_headers :: "string option"
  in_params :: "string option"
  in_query :: "string option"

record registerRequest =
  rq_name :: located
  rq_username :: located
  rq_email :: located
  rq_password :: located

text \<open>
  The instances of a field a chain validates: every location that has a value; when no
  location has one, the first location alone, with its missing value.
\<close>

definition selected :: "located \<Rightarrow> string option list" where
  "selected f =
     (let withValue = filter (\<lambda>v. v \<noteq> None)
            [in_body f, in_cookies f, in_headers f, in_params f, in_query f]
      in if withValue = [] then [in_body f] else withValue)"

text \<open>
  One chain: an error with the chain's message for every selected instance that fails;
  a missing value is validated as the empty string.
\<close>

definition checkField :: "(string \<Rightarrow> bool) \<Rightarrow> string \<Rightarrow> located \<Rightarrow> string list" where
  "checkField ok msg f = map (\<lambda>v. msg) (filter (\<lambda>v. \<not> ok (str v)) (selected f))"

text \<open>
  What the handler takes from its libraries: the validator \<^verbatim>\<open>isEmail\<close>, the token
  signer behind \<^verbatim>\<open>generateToken\<close>, and the hashing of the credential before the record
  is stored.
\<close>

record deps =
  isEmail :: "string \<Rightarrow> bool"
  signToken :: "objectId \<Rightarrow> string"
  hashPassword :: "string \<Rightarrow> string"

text \<open>
  The four chains of the route, in order: \<^verbatim>\<open>check('name', ...).not().isEmpty()\<close>,
  \<^verbatim>\<open>check('username', ...).not().isEmpty()\<close>, \<^verbatim>\<open>check('email', ...).isEmail()\<close> and
  \<^verbatim>\<open>check('password', ...).isLength({ min: 6 })\<close>.
\<close>

definition register_checks :: "deps \<Rightarrow> registerRequest \<Rightarrow> string list" where
  "register_checks dp rq =
     checkField (\<lambda>x. x \<noteq> []) ''Name is required'' (rq_name rq) @
     checkField (\<lambda>x. x \<noteq> []) ''Username is required'' (rq_username rq) @
     checkField (isEmail dp) ''Please include a valid email'' (rq_email rq) @
     checkField (\<lambda>x. 6 \<le> length x) ''Password must be at least 6 characters'' (rq_password rq)"

text \<open>
  \<^verbatim>\<open>User.findOne({ email })\<close>, \<^verbatim>\<open>User.findOne({ username })\<close>: the first document whose
  field has the value. A filter whose value is undefined is the empty filter, which the
  first document of the collection matches.
\<close>

definition findOne :: "('a \<Rightarrow> string) \<Rightarrow> string option \<Rightarrow> 'a list \<Rightarrow> 'a option" where
  "findOne field v ds =
     (case v of
        None \<Rightarrow> (case ds of [] \<Rightarrow> None | d # _ \<Rightarrow> Some d)
      | Some x \<Rightarrow> find (\<lambda>d. field d = x) ds)"

text \<open>
  Modelled from the spec: what \<^verbatim>\<open>new User({ name, username, email, password })\<close> and
  \<^verbatim>\<open>user.save()\<close> store (models/User.js is not among the sources): the credential hashed
  before persistence, no images, empty free-text fields, not verified, empty edge sets.
  Display name, handle, contact address and credential are attributes every user has:
  when the body lacks one, \<^verbatim>\<open>save()\<close> throws and nothing is stored (\<open>None\<close>).
\<close>

definition newUser :: "deps \<Rightarrow> objectId \<Rightarrow> registerRequest \<Rightarrow> user option" where
  "newUser dp newId rq =
     (case (in_body (rq_name rq), in_body (rq_username rq), in_body (rq_email rq),
            in_body (rq_password rq)) of
        (Some name, Some username, Some email, Some password) \<Rightarrow>
          Some \<lparr>u_id = newId, u_name = name, u_username = username, u_email = email,
                u_password = hashPassword dp password, u_profilePicture = None,
                u_coverPhoto = None, u_bio = [], u_location = [], u_website = [],
                u_isVerified = False, u_followers = [], u_following = []\<rparr>
      | _ \<Rightarrow> None)"

text \<open>The body of the 201 answer (and of the login answer): the token and nine fields.\<close>

definition authBody :: "deps \<Rightarrow> user \<Rightarrow> json" where
  "authBody dp u =
     JObj [(''token'', JStr (signToken dp (u_id u))),
           (''user'', JObj (select_only
              [''_id'', ''name'', ''username'', ''email'', ''profilePicture'', ''bio'',
               ''followers'', ''following'', ''isVerified''] (user_json u)))]"

text \<open>
  \<^verbatim>\<open>POST api/auth/register\<close>; \<open>newId\<close> is the identifier the store generates. An
  exception thrown by \<^verbatim>\<open>save()\<close> lands in the \<^verbatim>\<open>catch\<close>, which answers 500. Success is
  answered with status 201.
\<close>

definition register :: "deps \<Rightarrow> db \<Rightarrow> registerRequest \<Rightarrow> objectId \<Rightarrow> (error + json) \<times> db" where
  "register dp s rq newId =
     (let errors = register_checks dp rq in
      if errors \<noteq> [] then (Inl (ValidationError errors), s)
      else if findOne u_email (in_body (rq_email rq)) (users s) \<noteq> None
        then (Inl (BadRequest ''Email already exists''), s)
      else if findOne u_username (in_body (rq_username rq)) (users s) \<noteq> None
        then (Inl (BadRequest ''Username already exists''), s)
      else (case newUser dp newId rq of
              None \<Rightarrow> (Inl (ServerError ''Server error''), s)
            | Some u \<Rightarrow> (Inr (authBody dp u), s\<lparr>users := users s @ [u]\<rparr>)))"

text \<open>Whether a field name occurs anywhere in a document, at any depth.\<close>

fun has_key :: "string \<Rightarrow> json \<Rightarrow> bool" where
  "has_key k (JObj kvs) = (\<exists>kv \<in> set kvs. fst kv = k \<or> has_key k (snd kv))"
| "has_key k (JArr vs) = (\<exists>v \<in> set vs. has_key k v)"
| "has_key k _ = False"

section \<open>A small store to run the handlers on\<close>

text \<open>
  Alice follows Bob. Bob's tweet 10 is liked by Carol and Alice and has two comments;
  Carol's tweet 11 has one.
\<close>

definition alice :: user where
  "alice = \<lparr>u_id = 1, u_name = ''Alice'', u_username = ''alice'', u_email = ''alice@example.org'',
     u_password = ''hash-a'', u_profilePicture = None, u_coverPhoto = None, u_bio = ''old bio'',
     u_location = [], u_website = [], u_isVerified = False, u_followers = [],
     u_following = [2]\<rparr>"

definition bob :: user where
  "bob = \<lparr>u_id = 2, u_name = ''Bob'', u_username = ''bob'', u_email = ''bob@example.org'',
     u_password = ''hash-b'', u_profilePicture = None, u_coverPhoto = None, u_bio = [],
     u_location = [], u_website = [], u_isVerified = False, u_followers = [1],
     u_following = []\<rparr>"

definition carol :: user where
  "carol = \<lparr>u_id = 3, u_name = ''Carol'', u_username = ''carol'', u_email = ''carol@example.org'',
     u_password = ''hash-c'', u_profilePicture = None, u_coverPhoto = None, u_bio = [],
     u_location = [], u_website = [], u_isVerified = True, u_followers = [],
     u_following = []\<rparr>"

definition tweet10 :: tweet where
  "tweet10 = \<lparr>t_id = 10, t_user = 2, t_content = ''hello'', t_image = None, t_likes = [3, 1],
     t_retweets = [], t_comments = [20, 21], t_parent = None, t_isRetweet = False,
     t_createdAt = 100, t_updatedAt = 100, t_v = 0\<rparr>"

definition tweet11 :: tweet where
  "tweet11 = \<lparr>t_id = 11, t_user = 3, t_content = ''world'', t_image = None, t_likes = [],
     t_retweets = [], t_comments = [22], t_parent = None, t_isRetweet = False,
     t_createdAt = 200, t_updatedAt = 200, t_v = 0\<rparr>"

definition tweet12 :: tweet where
  "tweet12 = \<lparr>t_id = 12, t_user = 1, t_content = ''mine'', t_image = None, t_likes = [],
     t_retweets = [], t_comments = [], t_parent = None, t_isRetweet = False,
     t_createdAt = 300, t_updatedAt = 300, t_v = 0\<rparr>"

definition comment20 :: comment where
  "comment20 = \<lparr>c_id = 20, c_user = 1, c_tweet = 10, c_content = ''first'', c_likes = [2, 1],
     c_createdAt = 110, c_updatedAt = 110, c_v = 0\<rparr>"

definition comment21 :: comment where
  "comment21 = \<lparr>c_id = 21, c_user = 3, c_tweet = 10, c_content = ''second'', c_likes = [],
     c_createdAt = 120, c_updatedAt = 120, c_v = 0\<rparr>"

definition comment22 :: comment where
  "comment22 = \<lparr>c_id = 22, c_user = 2, c_tweet = 11, c_content = ''third'', c_likes = [],
     c_createdAt = 210, c_updatedAt = 210, c_v = 0\<rparr>"

definition exampleDb :: db where
  "exampleDb = \<lparr>users = [alice, bob, carol], tweets = [tweet10, tweet11, tweet12],
     comments = [comment20, comment21, comment22]\<rparr>"

text \<open>
  Two users with no edges, whose identifiers 10 and 11 render as
  \<open>00000000000000000000000a\<close> and \<open>00000000000000000000000b\<close>.
\<close>

definition dana :: user where
  "dana = \<lparr>u_id = 10, u_name = ''Dana'', u_username = ''dana'', u_email = ''dana@example.org'',
     u_password = ''hash-d'', u_profilePicture = None, u_coverPhoto = None, u_bio = [],
     u_location = [], u_website = [], u_isVerified = False, u_followers = [],
     u_following = []\<rparr>"

definition erin :: user where
  "erin = \<lparr>u_id = 11, u_name = ''Erin'', u_username = ''erin'', u_email = ''erin@example.org'',
     u_password = ''hash-e'', u_profilePicture = None, u_coverPhoto = None, u_bio = [],
     u_location = [], u_website = [], u_isVerified = False, u_followers = [],
     u_following = []\<rparr>"

definition followDb :: db where
  "followDb = \<lparr>users = [dana, erin], tweets = [], comments = []\<rparr>"

text \<open>Stand-ins for the libraries, and some requests.\<close>

definition exampleDeps :: deps where
  "exampleDeps = \<lparr>isEmail = (\<lambda>e. CHR ''@'' \<in> set e), signToken = (\<lambda>i. ''token''),
     hashPassword = (\<lambda>p. CHR ''#'' # p)\<rparr>"

definition inBody :: "string \<Rightarrow> located" where
  "inBody v = \<lparr>in_body = Some v, in_cookies = None, in_headers = None, in_params = None,
     in_query = None\<rparr>"

definition inQuery :: "string \<Rightarrow> located" where
  "inQuery v = \<lparr>in_body = None, in_cookies = None, in_headers = None, in_params = None,
     in_query = Some v\<rparr>"

definition shortPasswordRequest :: registerRequest where
  "shortPasswordRequest = \<lparr>rq_name = inBody ''Dave'', rq_username = inBody ''dave'',
     rq_email = inBody ''dave@example.org'', rq_password = inBody ''12345''\<rparr>"

definition queryPasswordRequest :: registerRequest where
  "queryPasswordRequest = \<lparr>rq_name = inBody ''Dave'', rq_username = inBody ''dave'',
     rq_email = inBody ''dave@example.org'', rq_password = inQuery ''secret1''\<rparr>"

definition clearBioRequest :: profileRequest where
  "clearBioRequest = \<lparr>body_name = Some ''Alice A.'', body_bio = Some [], body_location = None,
     body_website = None, file_profilePicture = Some ''img/a.png'', file_coverPhoto = None\<rparr>"

lemmas example_defs =
  exampleDb_def alice_def bob_def carol_def tweet10_def tweet11_def tweet12_def
  comment20_def comment21_def comment22_def

section \<open>Facts about the store primitives\<close>

lemma findById_Some: "findById idf i ds = Some d \<Longrightarrow> idf d = i \<and> d \<in> set ds"
  unfolding findById_def by (auto simp: find_Some_iff)

lemma findById_None: "findById idf i ds = None \<longleftrightarrow> (\<forall>d \<in> set ds. idf d \<noteq> i)"
  unfolding findById_def by (auto simp: find_None_iff)

lemma findById_update_same:
  "(\<And>d. idf (f d) = idf d) \<Longrightarrow>
   findById idf i (findByIdAndUpdate idf i f ds) = map_option f (findById idf i ds)"
  unfolding findById_def by (induction ds) auto

lemma findById_update_other:
  "(\<And>d. idf (f d) = idf d) \<Longrightarrow> j \<noteq> i \<Longrightarrow>
   findById idf j (findByIdAndUpdate idf i f ds) = findById idf j ds"
  unfolding findById_def by (induction ds) auto

lemma findById_deleteOne:
  "distinct (map idf ds) \<Longrightarrow> findById idf i (deleteOne idf i ds) = None"
proof (induction ds)
  case Nil
  then show ?case by (simp add: findById_def)
next
  case (Cons d ds)
  show ?case
  proof (cases "idf d = i")
    case True
    from Cons.prems have "idf d \<notin> idf ` set ds" by simp
    with True have "\<forall>x \<in> set ds. idf x \<noteq> i" by blast
    with True show ?thesis by (simp add: findById_None)
  next
    case False
    with Cons show ?thesis by (simp add: findById_def)
  qed
qed

lemma findById_deleteMany:
  assumes "distinct (map idf ds)" "d \<in> set ds" "P d"
  shows "findById idf (idf d) (deleteMany P ds) = None"
proof -
  have "x = d" if "x \<in> set ds" "idf x = idf d" for x
    using assms(1,2) that by (meson distinct_map inj_onD)
  with assms(3) show ?thesis
    by (auto simp: findById_None deleteMany_def)
qed

section \<open>Deleting as a non-author\<close>

text \<open>
  Claim C5. When a tweet exists and the caller is not its author, \<open>DELETE api/tweets/:id\<close>
  answers 401 "User not authorized" and the whole store (the tweet, its comments, every
  other record) is exactly what it was; likewise \<open>DELETE api/comments/:id\<close> for a
  comment the caller did not write: the comment and its parent's comments list are
  untouched, nothing having been written before the ownership check.
\<close>

theorem delete_by_non_author_rejected:
  "(findById t_id i (tweets s) = Some tw \<and> t_user tw \<noteq> me \<longrightarrow>
      deleteTweet s me i = (Inl (Unauthorized ''User not authorized''), s)) \<and>
   (findById c_id j (comments s) = Some cm \<and> c_user cm \<noteq> me \<longrightarrow>
      deleteComment s me j now = (Inl (Unauthorized ''User not authorized''), s)) \<and>
   status (Unauthorized ''User not authorized'') = 401"
  by (simp add: deleteTweet_def deleteComment_def)

theorem delete_by_non_author_rejected_witness:
  "findById t_id 10 (tweets exampleDb) = Some tweet10 \<and> t_user tweet10 \<noteq> 3 \<and>
   deleteTweet exampleDb 3 10 = (Inl (Unauthorized ''User not authorized''), exampleDb) \<and>
   findById c_id 20 (comments exampleDb) = Some comment20 \<and> c_user comment20 \<noteq> 3 \<and>
   deleteComment exampleDb 3 20 500 = (Inl (Unauthorized ''User not authorized''), exampleDb)"
proof -
  have t: "findById t_id 10 (tweets exampleDb) = Some tweet10 \<and> t_user tweet10 \<noteq> 3"
    by (simp add: example_defs findById_def)
  have c: "findById c_id 20 (comments exampleDb) = Some comment20 \<and> c_user comment20 \<noteq> 3"
    by (simp add: example_defs findById_def)
  from t c delete_by_non_author_rejected [of 10 exampleDb tweet10 3 20 comment20 500]
  show ?thesis by blast
qed

section \<open>Deleting a tweet\<close>

text \<open>
  Claim C4. In a store whose identifiers are unique within each collection, when the
  caller is the author of an existing tweet, \<open>DELETE api/tweets/:id\<close> answers
  "Tweet removed"; afterwards the tweet is gone (fetching it answers 404), no comment
  with that tweet as parent is left, and the identifier of every comment that had it as
  parent finds nothing: the comment routes answer 404 "Comment not found" for it.
\<close>

theorem delete_tweet_cascades:
  assumes "findById t_id i (tweets s) = Some tw" and "t_user tw = me"
    and "distinct (map t_id (tweets s))" and "distinct (map c_id (comments s))"
  shows "\<exists>s'. deleteTweet s me i = (Inr ''Tweet removed'', s') \<and>
           findById t_id i (tweets s') = None \<and>
           getTweet s' i = Inl (NotFound ''Tweet not found'') \<and>
           (\<forall>c \<in> set (comments s'). c_tweet c \<noteq> i) \<and>
           (\<forall>c \<in> set (comments s). c_tweet c = i \<longrightarrow>
              findById c_id (c_id c) (comments s') = None \<and>
              likeComment s' u (c_id c) now = (Inl (NotFound ''Comment not found''), s') \<and>
              deleteComment s' u (c_id c) now = (Inl (NotFound ''Comment not found''), s'))"
proof -
  define s' where "s' = s\<lparr>comments := deleteMany (\<lambda>c. c_tweet c = i) (comments s),
                          tweets := deleteOne t_id (t_id tw) (tweets s)\<rparr>"
  from assms(1) have id: "t_id tw = i" by (simp add: findById_Some)
  have res: "deleteTweet s me i = (Inr ''Tweet removed'', s')"
    using assms(1,2) by (simp add: deleteTweet_def s'_def)
  have gone: "findById t_id i (tweets s') = None"
    using assms(3) id by (simp add: s'_def findById_deleteOne)
  have none_left: "\<forall>c \<in> set (comments s'). c_tweet c \<noteq> i"
    by (simp add: s'_def deleteMany_def)
  have each: "findById c_id (c_id c) (comments s') = None"
    if "c \<in> set (comments s)" "c_tweet c = i" for c
    using findById_deleteMany [OF assms(4) that(1), of "\<lambda>c. c_tweet c = i"] that(2)
    by (simp add: s'_def)
  from res gone none_left each show ?thesis
    by (auto simp: getTweet_def likeComment_def deleteComment_def)
qed

theorem delete_tweet_cascades_witness:
  "findById t_id 10 (tweets exampleDb) = Some tweet10 \<and> t_user tweet10 = 2 \<and>
   distinct (map t_id (tweets exampleDb)) \<and> distinct (map c_id (comments exampleDb)) \<and>
   deleteTweet exampleDb 2 10 =
     (Inr ''Tweet removed'', exampleDb\<lparr>tweets := [tweet11, tweet12], comments := [comment22]\<rparr>) \<and>
   comment20 \<in> set (comments exampleDb) \<and> c_tweet comment20 = 10 \<and>
   likeComment (snd (deleteTweet exampleDb 2 10)) 1 20 500 =
     (Inl (NotFound ''Comment not found''), snd (deleteTweet exampleDb 2 10))"
proof -
  have h: "findById t_id 10 (tweets exampleDb) = Some tweet10" "t_user tweet10 = 2"
    "distinct (map t_id (tweets exampleDb))" "distinct (map c_id (comments exampleDb))"
    by (simp_all add: example_defs findById_def)
  have c: "comment20 \<in> set (comments exampleDb)" "c_tweet comment20 = 10"
    by (simp_all add: example_defs)
  have run: "deleteTweet exampleDb 2 10 =
     (Inr ''Tweet removed'', exampleDb\<lparr>tweets := [tweet11, tweet12], comments := [comment22]\<rparr>)"
    by (simp add: deleteTweet_def deleteMany_def example_defs findById_def)
  from delete_tweet_cascades [OF h, of 1 500] c
  have "likeComment (snd (deleteTweet exampleDb 2 10)) 1 20 500 =
     (Inl (NotFound ''Comment not found''), snd (deleteTweet exampleDb 2 10))"
    by (auto simp: comment20_def)
  with h c run show ?thesis by simp
qed

section \<open>Toggling a like\<close>

lemma toggleLike_count: "count_list (toggleLike me likes) me \<le> 1"
  by (simp add: toggleLike_def count_list_0_iff)

lemma toggleLike_twice_set: "set (toggleLike me (toggleLike me likes)) = set likes"
  by (auto simp: toggleLike_def)

lemma toggleLike_twice_eq:
  "toggleLike me (toggleLike me likes) = likes \<longleftrightarrow>
     me \<notin> set likes \<or> (\<exists>rest. likes = me # rest \<and> me \<notin> set rest)"
proof (cases "me \<in> set likes")
  case False
  then show ?thesis by (auto simp: toggleLike_def filter_id_conv)
next
  case True
  then have two: "toggleLike me (toggleLike me likes) = me # filter (\<lambda>like. like \<noteq> me) likes"
    by (simp add: toggleLike_def)
  show ?thesis
  proof
    assume "toggleLike me (toggleLike me likes) = likes"
    with two have eq: "likes = me # filter (\<lambda>like. like \<noteq> me) likes" by simp
    then have "me \<notin> set (filter (\<lambda>like. like \<noteq> me) likes)" by simp
    with eq show "me \<notin> set likes \<or> (\<exists>rest. likes = me # rest \<and> me \<notin> set rest)" by blast
  next
    assume "me \<notin> set likes \<or> (\<exists>rest. likes = me # rest \<and> me \<notin> set rest)"
    with True obtain rest where r: "likes = me # rest" "me \<notin> set rest" by blast
    then have "filter (\<lambda>like. like \<noteq> me) likes = rest"
      by (auto simp: filter_id_conv)
    with two r show "toggleLike me (toggleLike me likes) = likes" by simp
  qed
qed

lemma toggleLike_others:
  "filter (\<lambda>like. like \<noteq> me) (toggleLike me likes) = filter (\<lambda>like. like \<noteq> me) likes"
  by (simp add: toggleLike_def)

lemma likeTweet_stored:
  assumes "findById t_id i (tweets s) = Some tw"
  shows "fst (likeTweet s me i now) = Inr (toggleLike me (t_likes tw))"
    and "findById t_id i (tweets (snd (likeTweet s me i now))) =
           Some (tw\<lparr>t_likes := toggleLike me (t_likes tw), t_updatedAt := now, t_v := t_v tw + 1\<rparr>)"
    and "\<forall>k. k \<noteq> i \<longrightarrow>
           findById t_id k (tweets (snd (likeTweet s me i now))) = findById t_id k (tweets s)"
    and "users (snd (likeTweet s me i now)) = users s"
    and "comments (snd (likeTweet s me i now)) = comments s"
  using assms
  by (simp_all add: likeTweet_def Let_def findById_update_same findById_update_other)

lemma likeComment_stored:
  assumes "findById c_id i (comments s) = Some cm"
  shows "fst (likeComment s me i now) = Inr (toggleLike me (c_likes cm))"
    and "findById c_id i (comments (snd (likeComment s me i now))) =
           Some (cm\<lparr>c_likes := toggleLike me (c_likes cm), c_updatedAt := now, c_v := c_v cm + 1\<rparr>)"
    and "\<forall>k. k \<noteq> i \<longrightarrow>
           findById c_id k (comments (snd (likeComment s me i now))) = findById c_id k (comments s)"
    and "users (snd (likeComment s me i now)) = users s"
    and "tweets (snd (likeComment s me i now)) = tweets s"
  using assms
  by (simp_all add: likeComment_def Let_def findById_update_same findById_update_other)

text \<open>
  Claim C3, as amended. For an existing tweet, and likewise an existing comment, and a
  caller: one toggle stores and answers the likes computed by the algorithm (the caller
  present: every entry of the caller removed; absent: the caller inserted at the front),
  in which the caller occurs at most once; after a second toggle by the same caller the
  likes have the same members as at the start, and are the same sequence exactly when
  the caller was absent at the start or was the first entry and nowhere else.
\<close>

theorem toggle_like_twice:
  "(findById t_id i (tweets s) = Some tw \<longrightarrow>
      (\<exists>tw1 tw2.
         fst (likeTweet s me i n1) = Inr (t_likes tw1) \<and>
         findById t_id i (tweets (snd (likeTweet s me i n1))) = Some tw1 \<and>
         fst (likeTweet (snd (likeTweet s me i n1)) me i n2) = Inr (t_likes tw2) \<and>
         findById t_id i (tweets (snd (likeTweet (snd (likeTweet s me i n1)) me i n2))) = Some tw2 \<and>
         t_likes tw1 =
           (if me \<in> set (t_likes tw) then filter (\<lambda>like. like \<noteq> me) (t_likes tw)
            else me # t_likes tw) \<and>
         count_list (t_likes tw1) me \<le> 1 \<and> count_list (t_likes tw2) me \<le> 1 \<and>
         set (t_likes tw2) = set (t_likes tw) \<and>
         (t_likes tw2 = t_likes tw \<longleftrightarrow>
            me \<notin> set (t_likes tw) \<or> (\<exists>rest. t_likes tw = me # rest \<and> me \<notin> set rest)))) \<and>
   (findById c_id j (comments s) = Some cm \<longrightarrow>
      (\<exists>cm1 cm2.
         fst (likeComment s me j n1) = Inr (c_likes cm1) \<and>
         findById c_id j (comments (snd (likeComment s me j n1))) = Some cm1 \<and>
         fst (likeComment (snd (likeComment s me j n1)) me j n2) = Inr (c_likes cm2) \<and>
         findById c_id j (comments (snd (likeComment (snd (likeComment s me j n1)) me j n2))) = Some cm2 \<and>
         c_likes cm1 =
           (if me \<in> set (c_likes cm) then filter (\<lambda>like. like \<noteq> me) (c_likes cm)
            else me # c_likes cm) \<and>
         count_list (c_likes cm1) me \<le> 1 \<and> count_list (c_likes cm2) me \<le> 1 \<and>
         set (c_likes cm2) = set (c_likes cm) \<and>
         (c_likes cm2 = c_likes cm \<longleftrightarrow>
            me \<notin> set (c_likes cm) \<or> (\<exists>rest. c_likes cm = me # rest \<and> me \<notin> set rest))))"
proof (intro conjI impI)
  assume f: "findById t_id i (tweets s) = Some tw"
  let ?tw1 = "tw\<lparr>t_likes := toggleLike me (t_likes tw), t_updatedAt := n1, t_v := t_v tw + 1\<rparr>"
  let ?tw2 = "?tw1\<lparr>t_likes := toggleLike me (t_likes ?tw1), t_updatedAt := n2,
      t_v := t_v ?tw1 + 1\<rparr>"
  let ?s1 = "snd (likeTweet s me i n1)"
  have f1: "findById t_id i (tweets ?s1) = Some ?tw1" by (rule likeTweet_stored(2) [OF f])
  have r1: "fst (likeTweet s me i n1) = Inr (t_likes ?tw1)"
    by (simp add: likeTweet_stored(1) [OF f])
  have r2: "fst (likeTweet ?s1 me i n2) = Inr (t_likes ?tw2)"
    by (simp add: likeTweet_stored(1) [OF f1])
  have f2: "findById t_id i (tweets (snd (likeTweet ?s1 me i n2))) = Some ?tw2"
    by (rule likeTweet_stored(2) [OF f1])
  have alg: "t_likes ?tw1 = (if me \<in> set (t_likes tw)
      then filter (\<lambda>like. like \<noteq> me) (t_likes tw) else me # t_likes tw)"
    by (simp add: toggleLike_def)
  have c1: "count_list (t_likes ?tw1) me \<le> 1" using toggleLike_count by simp
  have c2: "count_list (t_likes ?tw2) me \<le> 1" using toggleLike_count by simp
  have st: "set (t_likes ?tw2) = set (t_likes tw)" by (simp add: toggleLike_twice_set)
  have sq: "t_likes ?tw2 = t_likes tw \<longleftrightarrow>
      me \<notin> set (t_likes tw) \<or> (\<exists>rest. t_likes tw = me # rest \<and> me \<notin> set rest)"
    by (simp add: toggleLike_twice_eq)
  from r1 f1 r2 f2 alg c1 c2 st sq
  show "\<exists>tw1 tw2.
         fst (likeTweet s me i n1) = Inr (t_likes tw1) \<and>
         findById t_id i (tweets (snd (likeTweet s me i n1))) = Some tw1 \<and>
         fst (likeTweet (snd (likeTweet s me i n1)) me i n2) = Inr (t_likes tw2) \<and>
         findById t_id i (tweets (snd (likeTweet (snd (likeTweet s me i n1)) me i n2))) = Some tw2 \<and>
         t_likes tw1 =
           (if me \<in> set (t_likes tw) then filter (\<lambda>like. like \<noteq> me) (t_likes tw)
            else me # t_likes tw) \<and>
         count_list (t_likes tw1) me \<le> 1 \<and> count_list (t_likes tw2) me \<le> 1 \<and>
         set (t_likes tw2) = set (t_likes tw) \<and>
         (t_likes tw2 = t_likes tw \<longleftrightarrow>
            me \<notin> set (t_likes tw) \<or> (\<exists>rest. t_likes tw = me # rest \<and> me \<notin> set rest))"
    by blast
next
  assume f: "findById c_id j (comments s) = Some cm"
  let ?cm1 = "cm\<lparr>c_likes := toggleLike me (c_likes cm), c_updatedAt := n1, c_v := c_v cm + 1\<rparr>"
  let ?cm2 = "?cm1\<lparr>c_likes := toggleLike me (c_likes ?cm1), c_updatedAt := n2,
      c_v := c_v ?cm1 + 1\<rparr>"
  let ?s1 = "snd (likeComment s me j n1)"
  have f1: "findById c_id j (comments ?s1) = Some ?cm1" by (rule likeComment_stored(2) [OF f])
  have r1: "fst (likeComment s me j n1) = Inr (c_likes ?cm1)"
    by (simp add: likeComment_stored(1) [OF f])
  have r2: "fst (likeComment ?s1 me j n2) = Inr (c_likes ?cm2)"
    by (simp add: likeComment_stored(1) [OF f1])
  have f2: "findById c_id j (comments (snd (likeComment ?s1 me j n2))) = Some ?cm2"
    by (rule likeComment_stored(2) [OF f1])
  have alg: "c_likes ?cm1 = (if me \<in> set (c_likes cm)
      then filter (\<lambda>like. like \<noteq> me) (c_likes cm) else me # c_likes cm)"
    by (simp add: toggleLike_def)
  have c1: "count_list (c_likes ?cm1) me \<le> 1" using toggleLike_count by simp
  have c2: "count_list (c_likes ?cm2) me \<le> 1" using toggleLike_count by simp
  have st: "set (c_likes ?cm2) = set (c_likes cm)" by (simp add: toggleLike_twice_set)
  have sq: "c_likes ?cm2 = c_likes cm \<longleftrightarrow>
      me \<notin> set (c_likes cm) \<or> (\<exists>rest. c_likes cm = me # rest \<and> me \<notin> set rest)"
    by (simp add: toggleLike_twice_eq)
  from r1 f1 r2 f2 alg c1 c2 st sq
  show "\<exists>cm1 cm2.
         fst (likeComment s me j n1) = Inr (c_likes cm1) \<and>
         findById c_id j (comments (snd (likeComment s me j n1))) = Some cm1 \<and>
         fst (likeComment (snd (likeComment s me j n1)) me j n2) = Inr (c_likes cm2) \<and>
         findById c_id j (comments (snd (likeComment (snd (likeComment s me j n1)) me j n2))) = Some cm2 \<and>
         c_likes cm1 =
           (if me \<in> set (c_likes cm) then filter (\<lambda>like. like \<noteq> me) (c_likes cm)
            else me # c_likes cm) \<and>
         count_list (c_likes cm1) me \<le> 1 \<and> count_list (c_likes cm2) me \<le> 1 \<and>
         set (c_likes cm2) = set (c_likes cm) \<and>
         (c_likes cm2 = c_likes cm \<longleftrightarrow>
            me \<notin> set (c_likes cm) \<or> (\<exists>rest. c_likes cm = me # rest \<and> me \<notin> set rest))"
    by blast
qed

theorem toggle_like_twice_witness:
  "findById t_id 10 (tweets exampleDb) = Some tweet10 \<and>
   findById c_id 20 (comments exampleDb) = Some comment20 \<and>
   map_option (\<lambda>d. set (t_likes d))
     (findById t_id 10 (tweets (snd (likeTweet (snd (likeTweet exampleDb 1 10 500)) 1 10 501)))) =
     Some (set (t_likes tweet10)) \<and>
   map_option (\<lambda>d. set (c_likes d))
     (findById c_id 20
        (comments (snd (likeComment (snd (likeComment exampleDb 1 20 500)) 1 20 501)))) =
     Some (set (c_likes comment20))"
proof -
  have h: "findById t_id 10 (tweets exampleDb) = Some tweet10"
    "findById c_id 20 (comments exampleDb) = Some comment20"
    by (simp_all add: example_defs findById_def)
  from toggle_like_twice [of 10 exampleDb tweet10 1 500 501 20 comment20] h
  show ?thesis by auto
qed

text \<open>
  The claim as written, with the sequence restored by the second toggle, fails when the
  caller is a member that is not at the front: Alice toggling twice on tweet 10, whose
  likes are Carol, Alice, leaves Alice, Carol.
\<close>

theorem toggle_like_twice_counterexample:
  "map_option t_likes (findById t_id 10 (tweets exampleDb)) = Some [3, 1] \<and>
   map_option t_likes
     (findById t_id 10 (tweets (snd (likeTweet (snd (likeTweet exampleDb 1 10 500)) 1 10 501)))) =
     Some [1, 3] \<and>
   map_option t_likes
     (findById t_id 10 (tweets (snd (likeTweet (snd (likeTweet exampleDb 1 10 500)) 1 10 501)))) \<noteq>
   map_option t_likes (findById t_id 10 (tweets exampleDb))"
  by (simp add: likeTweet_def Let_def toggleLike_def findById_def example_defs)

text \<open>
  Claim C10, as amended. A toggle on an existing tweet (likewise comment) stores the
  record with three fields changed: the likes, the update timestamp that saving a
  modified document sets, and the version key, which the save increments by one. In the
  likes the other users' entries and their order are as before, the caller is a member
  afterwards exactly when not one before, and a new like is at the front. Every other
  tweet (comment) and the other collections are unchanged.
\<close>

theorem toggle_like_frame:
  "(findById t_id i (tweets s) = Some tw \<longrightarrow>
      (\<exists>likes'.
         fst (likeTweet s me i now) = Inr likes' \<and>
         findById t_id i (tweets (snd (likeTweet s me i now))) =
           Some (tw\<lparr>t_likes := likes', t_updatedAt := now, t_v := t_v tw + 1\<rparr>) \<and>
         filter (\<lambda>like. like \<noteq> me) likes' = filter (\<lambda>like. like \<noteq> me) (t_likes tw) \<and>
         (me \<in> set likes' \<longleftrightarrow> me \<notin> set (t_likes tw)) \<and>
         (me \<notin> set (t_likes tw) \<longrightarrow> likes' = me # t_likes tw) \<and>
         (\<forall>k. k \<noteq> i \<longrightarrow>
            findById t_id k (tweets (snd (likeTweet s me i now))) = findById t_id k (tweets s)) \<and>
         users (snd (likeTweet s me i now)) = users s \<and>
         comments (snd (likeTweet s me i now)) = comments s)) \<and>
   (findById c_id j (comments s) = Some cm \<longrightarrow>
      (\<exists>likes'.
         fst (likeComment s me j now) = Inr likes' \<and>
         findById c_id j (comments (snd (likeComment s me j now))) =
           Some (cm\<lparr>c_likes := likes', c_updatedAt := now, c_v := c_v cm + 1\<rparr>) \<and>
         filter (\<lambda>like. like \<noteq> me) likes' = filter (\<lambda>like. like \<noteq> me) (c_likes cm) \<and>
         (me \<in> set likes' \<longleftrightarrow> me \<notin> set (c_likes cm)) \<and>
         (me \<notin> set (c_likes cm) \<longrightarrow> likes' = me # c_likes cm) \<and>
         (\<forall>k. k \<noteq> j \<longrightarrow>
            findById c_id k (comments (snd (likeComment s me j now))) =
            findById c_id k (comments s)) \<and>
         users (snd (likeComment s me j now)) = users s \<and>
         tweets (snd (likeComment s me j now)) = tweets s))"
proof (intro conjI impI)
  assume f: "findById t_id i (tweets s) = Some tw"
  have mem: "me \<in> set (toggleLike me (t_likes tw)) \<longleftrightarrow> me \<notin> set (t_likes tw)"
    by (simp add: toggleLike_def)
  have front: "me \<notin> set (t_likes tw) \<longrightarrow> toggleLike me (t_likes tw) = me # t_likes tw"
    by (simp add: toggleLike_def)
  show "\<exists>likes'.
         fst (likeTweet s me i now) = Inr likes' \<and>
         findById t_id i (tweets (snd (likeTweet s me i now))) =
           Some (tw\<lparr>t_likes := likes', t_updatedAt := now, t_v := t_v tw + 1\<rparr>) \<and>
         filter (\<lambda>like. like \<noteq> me) likes' = filter (\<lambda>like. like \<noteq> me) (t_likes tw) \<and>
         (me \<in> set likes' \<longleftrightarrow> me \<notin> set (t_likes tw)) \<and>
         (me \<notin> set (t_likes tw) \<longrightarrow> likes' = me # t_likes tw) \<and>
         (\<forall>k. k \<noteq> i \<longrightarrow>
            findById t_id k (tweets (snd (likeTweet s me i now))) = findById t_id k (tweets s)) \<and>
         users (snd (likeTweet s me i now)) = users s \<and>
         comments (snd (likeTweet s me i now)) = comments s"
    using likeTweet_stored [OF f, of me now] toggleLike_others [of me "t_likes tw"] mem front
    by (intro exI [of _ "toggleLike me (t_likes tw)"]) blast
next
  assume f: "findById c_id j (comments s) = Some cm"
  have mem: "me \<in> set (toggleLike me (c_likes cm)) \<longleftrightarrow> me \<notin> set (c_likes cm)"
    by (simp add: toggleLike_def)
  have front: "me \<notin> set (c_likes cm) \<longrightarrow> toggleLike me (c_likes cm) = me # c_likes cm"
    by (simp add: toggleLike_def)
  show "\<exists>likes'.
         fst (likeComment s me j now) = Inr likes' \<and>
         findById c_id j (comments (snd (likeComment s me j now))) =
           Some (cm\<lparr>c_likes := likes', c_updatedAt := now, c_v := c_v cm + 1\<rparr>) \<and>
         filter (\<lambda>like. like \<noteq> me) likes' = filter (\<lambda>like. like \<noteq> me) (c_likes cm) \<and>
         (me \<in> set likes' \<longleftrightarrow> me \<notin> set (c_likes cm)) \<and>
         (me \<notin> set (c_likes cm) \<longrightarrow> likes' = me # c_likes cm) \<and>
         (\<forall>k. k \<noteq> j \<longrightarrow>
            findById c_id k (comments (snd (likeComment s me j now))) =
            findById c_id k (comments s)) \<and>
         users (snd (likeComment s me j now)) = users s \<and>
         tweets (snd (likeComment s me j now)) = tweets s"
    using likeComment_stored [OF f, of me now] toggleLike_others [of me "c_likes cm"] mem front
    by (intro exI [of _ "toggleLike me (c_likes cm)"]) blast
qed

theorem toggle_like_frame_witness:
  "findById t_id 10 (tweets exampleDb) = Some tweet10 \<and>
   findById c_id 21 (comments exampleDb) = Some comment21 \<and>
   findById t_id 10 (tweets (snd (likeTweet exampleDb 2 10 500))) =
     Some (tweet10\<lparr>t_likes := [2, 3, 1], t_updatedAt := 500, t_v := 1\<rparr>) \<and>
   findById t_id 11 (tweets (snd (likeTweet exampleDb 2 10 500))) =
     findById t_id 11 (tweets exampleDb) \<and>
   findById c_id 21 (comments (snd (likeComment exampleDb 2 21 500))) =
     Some (comment21\<lparr>c_likes := [2], c_updatedAt := 500, c_v := 1\<rparr>)"
proof -
  have h: "findById t_id 10 (tweets exampleDb) = Some tweet10"
    "findById c_id 21 (comments exampleDb) = Some comment21"
    by (simp_all add: example_defs findById_def)
  have n: "2 \<notin> set (t_likes tweet10)" "2 \<notin> set (c_likes comment21)"
    "2 # t_likes tweet10 = [2, 3, 1]" "2 # c_likes comment21 = [2]"
    "t_v tweet10 + 1 = 1" "c_v comment21 + 1 = 1"
    by (simp_all add: example_defs)
  from toggle_like_frame [of 10 exampleDb tweet10 2 500 21 comment21] h n
  show ?thesis by auto
qed

text \<open>
  The claim as written, with no field but the likes modified, fails on the update
  timestamp and the version key: Bob liking tweet 10 at time 500 moves its
  \<open>updatedAt\<close> from 100 to 500 and its \<open>__v\<close> from 0 to 1.
\<close>

theorem toggle_like_frame_counterexample:
  "map_option t_updatedAt (findById t_id 10 (tweets exampleDb)) = Some 100 \<and>
   map_option t_updatedAt (findById t_id 10 (tweets (snd (likeTweet exampleDb 2 10 500)))) =
     Some 500 \<and>
   map_option t_v (findById t_id 10 (tweets exampleDb)) = Some 0 \<and>
   map_option t_v (findById t_id 10 (tweets (snd (likeTweet exampleDb 2 10 500)))) = Some 1 \<and>
   findById t_id 10 (tweets (snd (likeTweet exampleDb 2 10 500))) \<noteq>
     Some (tweet10\<lparr>t_likes := [2, 3, 1]\<rparr>)"
  by (simp add: likeTweet_def Let_def toggleLike_def findById_def example_defs)

section \<open>The timeline\<close>

lemma sortDesc_sorted: "sorted_wrt (\<lambda>a b. key b \<le> key a) (sortDesc key ds)"
proof -
  have "sorted_wrt (\<lambda>a b. key a \<le> key b) (sort_key key ds)"
    using sorted_sort_key [of key ds] by (simp add: sorted_map)
  then show ?thesis by (simp add: sortDesc_def sorted_wrt_rev)
qed

lemma set_sortDesc: "set (sortDesc key ds) = set ds"
  by (simp add: sortDesc_def)

text \<open>
  Claim C6. For a caller whose record exists, \<open>GET api/tweets/timeline\<close> answers a
  list of at most 50 stored tweets, each authored by the caller or by a member of the
  caller's \<open>following\<close>, in descending order of creation time.
\<close>

theorem timeline_contents:
  assumes "findById u_id me (users s) = Some currentUser"
  shows "\<exists>ts. getTimeline s me = Inr ts \<and> length ts \<le> 50 \<and>
           (\<forall>p \<in> set ts. fst p \<in> set (tweets s) \<and>
              (t_user (fst p) = me \<or> t_user (fst p) \<in> set (u_following currentUser))) \<and>
           sorted_wrt (\<lambda>p q. t_createdAt (fst q) \<le> t_createdAt (fst p)) ts"
proof -
  let ?mine = "filter (\<lambda>tw. t_user tw = me \<or> t_user tw \<in> set (u_following currentUser)) (tweets s)"
  let ?page = "take 50 (sortDesc t_createdAt ?mine)"
  let ?ts = "map (populateTweet True (users s)) ?page"
  have res: "getTimeline s me = Inr ?ts"
    using assms by (simp add: getTimeline_def)
  have len: "length ?ts \<le> 50" by simp
  have sub: "set ?page \<subseteq> set ?mine"
    using set_take_subset [of 50 "sortDesc t_createdAt ?mine"] by (simp add: set_sortDesc)
  have fst_pop: "fst (populateTweet True (users s) tw) = tw" for tw
    by (simp add: populateTweet_def)
  have only: "\<forall>p \<in> set ?ts. fst p \<in> set (tweets s) \<and>
      (t_user (fst p) = me \<or> t_user (fst p) \<in> set (u_following currentUser))"
    using sub by (auto simp: fst_pop)
  have "sorted_wrt (\<lambda>a b. t_createdAt b \<le> t_createdAt a) ?page"
    by (intro sorted_wrt_take sortDesc_sorted)
  then have ord: "sorted_wrt (\<lambda>p q. t_createdAt (fst q) \<le> t_createdAt (fst p)) ?ts"
    by (simp add: sorted_wrt_map fst_pop)
  from res len only ord show ?thesis by blast
qed

theorem timeline_contents_witness:
  "findById u_id 1 (users exampleDb) = Some alice \<and>
   map fst (case getTimeline exampleDb 1 of Inl e \<Rightarrow> [] | Inr ts \<Rightarrow> ts) = [tweet12, tweet10] \<and>
   (\<exists>ts. getTimeline exampleDb 1 = Inr ts \<and> length ts \<le> 50 \<and>
      sorted_wrt (\<lambda>p q. t_createdAt (fst q) \<le> t_createdAt (fst p)) ts)"
proof -
  have h: "findById u_id 1 (users exampleDb) = Some alice"
    by (simp add: example_defs findById_def)
  have run: "map fst (case getTimeline exampleDb 1 of Inl e \<Rightarrow> [] | Inr ts \<Rightarrow> ts) = [tweet12, tweet10]"
    by (simp add: getTimeline_def sortDesc_def populateTweet_def findById_def example_defs)
  from timeline_contents [OF h] h run show ?thesis by blast
qed

section \<open>Creating a tweet with empty content\<close>

text \<open>
  Claim C1. The claim expects 400 with a validation error for empty content without an
  image, and a stored tweet for empty content with an image. The code does neither. The
  tweets router throws when it is loaded, on the call of \<open>unless\<close>, so a
  \<open>POST api/tweets\<close> request gets no answer and stores nothing. And the handler, were it
  reached with empty (or missing) content and an image, stores nothing whatever the
  validators found: with no validation error it builds the tweet with content \<open>''\<close>,
  the schema's required \<open>content\<close> rejects it at \<open>save()\<close>, and the answer is 500.
\<close>

theorem create_tweet_empty_content:
  "tweetsRouter_load = Inl (TypeError ''unless is not a function'') \<and>
   postTweet s me errors rq newId now = (None, s) \<and>
   createTweet s me [] \<lparr>body_content = Some [], file_path = Some p\<rparr> newId now =
     (Inl (ServerError ''Server error''), s) \<and>
   createTweet s me [] \<lparr>body_content = None, file_path = Some p\<rparr> newId now =
     (Inl (ServerError ''Server error''), s) \<and>
   status (ServerError ''Server error'') = 500 \<and>
   snd (createTweet s me errors \<lparr>body_content = Some [], file_path = Some p\<rparr> newId now) = s \<and>
   snd (createTweet s me errors \<lparr>body_content = None, file_path = Some p\<rparr> newId now) = s"
proof -
  have load: "tweetsRouter_load = Inl (TypeError ''unless is not a function'')"
    by (simp add: tweetsRouter_load_def chainMethods_def)
  have served: "postTweet s me errors rq newId now = (None, s)"
    unfolding postTweet_def load by simp
  have handler:
    "createTweet s me [] \<lparr>body_content = Some [], file_path = Some p\<rparr> newId now =
       (Inl (ServerError ''Server error''), s)"
    "createTweet s me [] \<lparr>body_content = None, file_path = Some p\<rparr> newId now =
       (Inl (ServerError ''Server error''), s)"
    "snd (createTweet s me errors \<lparr>body_content = Some [], file_path = Some p\<rparr> newId now) = s"
    "snd (createTweet s me errors \<lparr>body_content = None, file_path = Some p\<rparr> newId now) = s"
    by (simp_all add: createTweet_def TweetSchema_validate_def str_def Let_def)
  from load served handler show ?thesis by simp
qed

section \<open>Registering with a short password\<close>

lemma checkField_fails:
  "v \<in> set (selected f) \<Longrightarrow> \<not> ok (str v) \<Longrightarrow> msg \<in> set (checkField ok msg f)"
  by (auto simp: checkField_def)

lemma selected_body: "in_body f = Some p \<Longrightarrow> Some p \<in> set (selected f)"
  by (simp add: selected_def Let_def)

lemma selected_nowhere:
  "in_body f = None \<Longrightarrow> in_cookies f = None \<Longrightarrow> in_headers f = None \<Longrightarrow>
   in_params f = None \<Longrightarrow> in_query f = None \<Longrightarrow> None \<in> set (selected f)"
  by (simp add: selected_def Let_def)

text \<open>
  Claim C9. A registration request whose password, the one in the body, has fewer than 6
  characters is answered 400 with the validators' errors, among them "Password must be
  at least 6 characters", and the store, hence its users, is unchanged. The same holds
  when a password shorter than 6 characters is sent in any other place the validator
  looks at, and when no password is sent at all.
\<close>

theorem register_short_password:
  assumes "(in_body (rq_password rq) = Some p \<and> length p < 6) \<or>
           (v \<in> set (selected (rq_password rq)) \<and> length (str v) < 6) \<or>
           (in_body (rq_password rq) = None \<and> in_cookies (rq_password rq) = None \<and>
            in_headers (rq_password rq) = None \<and> in_params (rq_password rq) = None \<and>
            in_query (rq_password rq) = None)"
  shows "\<exists>errors. register dp s rq newId = (Inl (ValidationError errors), s) \<and>
           ''Password must be at least 6 characters'' \<in> set errors \<and>
           status (ValidationError errors) = 400"
proof -
  from assms obtain w where w: "w \<in> set (selected (rq_password rq))" "length (str w) < 6"
  proof (elim disjE conjE)
    assume "in_body (rq_password rq) = Some p" "length p < 6"
    then have "Some p \<in> set (selected (rq_password rq))" "length (str (Some p)) < 6"
      by (simp_all add: selected_body str_def)
    then show ?thesis by (rule that)
  next
    assume "v \<in> set (selected (rq_password rq))" "length (str v) < 6"
    then show ?thesis by (rule that)
  next
    assume "in_body (rq_password rq) = None" "in_cookies (rq_password rq) = None"
      "in_headers (rq_password rq) = None" "in_params (rq_password rq) = None"
      "in_query (rq_password rq) = None"
    then have "None \<in> set (selected (rq_password rq))" by (rule selected_nowhere)
    moreover have "length (str None) < 6" by (simp add: str_def)
    ultimately show ?thesis by (rule that)
  qed
  have "''Password must be at least 6 characters'' \<in>
      set (checkField (\<lambda>x. 6 \<le> length x) ''Password must be at least 6 characters''
             (rq_password rq))"
    using w by (intro checkField_fails [of w]) simp_all
  then have msg: "''Password must be at least 6 characters'' \<in> set (register_checks dp rq)"
    by (simp add: register_checks_def)
  then have "register_checks dp rq \<noteq> []" by auto
  then have "register dp s rq newId = (Inl (ValidationError (register_checks dp rq)), s)"
    by (simp add: register_def Let_def)
  with msg show ?thesis by simp
qed

theorem register_short_password_witness:
  "in_body (rq_password shortPasswordRequest) = Some ''12345'' \<and> length ''12345'' < 6 \<and>
   register exampleDeps exampleDb shortPasswordRequest 4 =
     (Inl (ValidationError [''Password must be at least 6 characters'']), exampleDb)"
proof -
  have h: "in_body (rq_password shortPasswordRequest) = Some ''12345'' \<and> length ''12345'' < 6"
    by (simp add: shortPasswordRequest_def inBody_def)
  have e: "register_checks exampleDeps shortPasswordRequest =
      [''Password must be at least 6 characters'']"
    by (simp add: register_checks_def checkField_def selected_def shortPasswordRequest_def
        inBody_def exampleDeps_def str_def)
  from h have "(in_body (rq_password shortPasswordRequest) = Some ''12345'' \<and> length ''12345'' < 6) \<or>
      (None \<in> set (selected (rq_password shortPasswordRequest)) \<and> length (str None) < 6) \<or>
      (in_body (rq_password shortPasswordRequest) = None \<and>
       in_cookies (rq_password shortPasswordRequest) = None \<and>
       in_headers (rq_password shortPasswordRequest) = None \<and>
       in_params (rq_password shortPasswordRequest) = None \<and>
       in_query (rq_password shortPasswordRequest) = None)" by blast
  from register_short_password [OF this, of exampleDeps exampleDb 4] e h
  show ?thesis by (auto simp: register_def Let_def)
qed

text \<open>
  A password that is missing from the body and sent, long enough, in the query string
  is outside the claim: the validators pass, the handler reads no password from the
  body, \<open>save()\<close> throws, and the answer is 500, again with nothing stored.
\<close>

lemma register_password_in_query:
  "register exampleDeps exampleDb queryPasswordRequest 4 =
     (Inl (ServerError ''Server error''), exampleDb)"
  by (simp add: register_def register_checks_def checkField_def selected_def findOne_def
      newUser_def queryPasswordRequest_def inBody_def inQuery_def exampleDeps_def str_def
      example_defs Let_def)

section \<open>Updating the profile\<close>

lemma userFields_id: "u_id (userFields rq u) = u_id u"
  by (simp add: userFields_def)

text \<open>
  Claim C7, as amended. For a caller whose record exists, \<open>PUT api/users\<close> stores the
  caller's record with each of name, bio, location and website replaced by the supplied
  value when one is supplied and is not the empty string, and kept otherwise, and with
  each image replaced when one is uploaded and kept otherwise; every other field of the
  record is kept, every other user's record and the other collections are unchanged, and
  the answer is the stored record without the credential hash.
\<close>

theorem update_profile_patch:
  assumes "findById u_id me (users s) = Some u"
  shows "\<exists>u'. findById u_id me (users (snd (updateProfile s me rq))) = Some u' \<and>
           fst (updateProfile s me rq) = Inr (JObj (select_minus ''password'' (user_json u'))) \<and>
           u_name u' = (case body_name rq of None \<Rightarrow> u_name u
                        | Some x \<Rightarrow> if x = [] then u_name u else x) \<and>
           u_bio u' = (case body_bio rq of None \<Rightarrow> u_bio u
                       | Some x \<Rightarrow> if x = [] then u_bio u else x) \<and>
           u_location u' = (case body_location rq of None \<Rightarrow> u_location u
                            | Some x \<Rightarrow> if x = [] then u_location u else x) \<and>
           u_website u' = (case body_website rq of None \<Rightarrow> u_website u
                           | Some x \<Rightarrow> if x = [] then u_website u else x) \<and>
           u_profilePicture u' = (case file_profilePicture rq of None \<Rightarrow> u_profilePicture u
                                  | Some p \<Rightarrow> Some p) \<and>
           u_coverPhoto u' = (case file_coverPhoto rq of None \<Rightarrow> u_coverPhoto u
                              | Some p \<Rightarrow> Some p) \<and>
           u_id u' = u_id u \<and> u_username u' = u_username u \<and> u_email u' = u_email u \<and>
           u_password u' = u_password u \<and> u_isVerified u' = u_isVerified u \<and>
           u_followers u' = u_followers u \<and> u_following u' = u_following u \<and>
           (\<forall>k. k \<noteq> me \<longrightarrow>
              findById u_id k (users (snd (updateProfile s me rq))) = findById u_id k (users s)) \<and>
           tweets (snd (updateProfile s me rq)) = tweets s \<and>
           comments (snd (updateProfile s me rq)) = comments s"
proof -
  let ?u' = "userFields rq u"
  have stored: "findById u_id me (users (snd (updateProfile s me rq))) = Some ?u'"
    using assms by (simp add: updateProfile_def Let_def findById_update_same userFields_id)
  have answer: "fst (updateProfile s me rq) = Inr (JObj (select_minus ''password'' (user_json ?u')))"
    using assms by (simp add: updateProfile_def Let_def findById_update_same userFields_id)
  have text_fields:
    "u_name ?u' = (case body_name rq of None \<Rightarrow> u_name u
                    | Some x \<Rightarrow> if x = [] then u_name u else x)"
    "u_bio ?u' = (case body_bio rq of None \<Rightarrow> u_bio u
                    | Some x \<Rightarrow> if x = [] then u_bio u else x)"
    "u_location ?u' = (case body_location rq of None \<Rightarrow> u_location u
                    | Some x \<Rightarrow> if x = [] then u_location u else x)"
    "u_website ?u' = (case body_website rq of None \<Rightarrow> u_website u
                    | Some x \<Rightarrow> if x = [] then u_website u else x)"
    by (simp_all add: userFields_def truthy_def str_def split: option.split)
  have images:
    "u_profilePicture ?u' = (case file_profilePicture rq of None \<Rightarrow> u_profilePicture u
                                  | Some p \<Rightarrow> Some p)"
    "u_coverPhoto ?u' = (case file_coverPhoto rq of None \<Rightarrow> u_coverPhoto u
                              | Some p \<Rightarrow> Some p)"
    by (simp_all add: userFields_def)
  have kept: "u_id ?u' = u_id u" "u_username ?u' = u_username u" "u_email ?u' = u_email u"
    "u_password ?u' = u_password u" "u_isVerified ?u' = u_isVerified u"
    "u_followers ?u' = u_followers u" "u_following ?u' = u_following u"
    by (simp_all add: userFields_def)
  have others: "\<forall>k. k \<noteq> me \<longrightarrow>
      findById u_id k (users (snd (updateProfile s me rq))) = findById u_id k (users s)"
    by (simp add: updateProfile_def Let_def findById_update_other userFields_id)
  have rest: "tweets (snd (updateProfile s me rq)) = tweets s"
    "comments (snd (updateProfile s me rq)) = comments s"
    by (simp_all add: updateProfile_def Let_def)
  from stored answer text_fields images kept others rest show ?thesis by blast
qed

theorem update_profile_patch_witness:
  "findById u_id 1 (users exampleDb) = Some alice \<and>
   findById u_id 1 (users (snd (updateProfile exampleDb 1 clearBioRequest))) =
     Some (alice\<lparr>u_name := ''Alice A.'', u_profilePicture := Some ''img/a.png''\<rparr>) \<and>
   findById u_id 2 (users (snd (updateProfile exampleDb 1 clearBioRequest))) =
     findById u_id 2 (users exampleDb)"
proof -
  have h: "findById u_id 1 (users exampleDb) = Some alice"
    by (simp add: example_defs findById_def)
  have run: "findById u_id 1 (users (snd (updateProfile exampleDb 1 clearBioRequest))) =
     Some (alice\<lparr>u_name := ''Alice A.'', u_profilePicture := Some ''img/a.png''\<rparr>)"
    by (simp add: updateProfile_def Let_def userFields_def truthy_def str_def findById_def
        clearBioRequest_def example_defs)
  from update_profile_patch [OF h, of clearBioRequest] h run show ?thesis by auto
qed

text \<open>
  The claim as written, with every supplied field applied, fails for a field supplied as
  the empty string: Alice sending an empty bio keeps her old one.
\<close>

theorem update_profile_patch_counterexample:
  "body_bio clearBioRequest = Some [] \<and>
   map_option u_bio (findById u_id 1 (users exampleDb)) = Some ''old bio'' \<and>
   map_option u_bio (findById u_id 1 (users (snd (updateProfile exampleDb 1 clearBioRequest)))) =
     Some ''old bio'' \<and>
   map_option u_bio (findById u_id 1 (users (snd (updateProfile exampleDb 1 clearBioRequest)))) \<noteq>
     body_bio clearBioRequest"
  by (simp add: updateProfile_def Let_def userFields_def truthy_def str_def findById_def
      clearBioRequest_def example_defs)

section \<open>Reading a user\<close>

lemma summary_no_password:
  "\<not> has_key ''password''
       (JObj (select_only [''_id'', ''name'', ''username'', ''profilePicture''] (user_json u)))"
  by (simp add: select_only_def user_json_def JOpt_def split: option.split)

lemma populated_no_password:
  "\<not> has_key ''password''
       (populated us [''_id'', ''name'', ''username'', ''profilePicture''] (JArr (map JId ids)))"
proof -
  let ?f = "\<lambda>j. case j of
      JId i \<Rightarrow> map_option
        (\<lambda>u. JObj (select_only [''_id'', ''name'', ''username'', ''profilePicture''] (user_json u)))
        (findById u_id i us)
    | _ \<Rightarrow> None"
  have "\<forall>v \<in> set (List.map_filter ?f (map JId ids)). \<not> has_key ''password'' v"
  proof (induction ids)
    case Nil
    show ?case by simp
  next
    case (Cons i ids)
    then show ?case
      using summary_no_password by (cases "findById u_id i us") simp_all
  qed
  then show ?thesis by (simp add: populated_def)
qed

lemma profileView_no_password: "\<not> has_key ''password'' (profileView us u)"
  using populated_no_password [of us "u_followers u"] populated_no_password [of us "u_following u"]
  by (simp add: profileView_def populate_def select_minus_def user_json_def JOpt_def
           split: option.split)

lemma find_map_same:
  "(\<And>x. P (g x) = P x) \<Longrightarrow> find P (map g xs) = map_option g (find P xs)"
  by (induction xs) auto

lemma populated_rehash:
  "populated (map (\<lambda>u. u\<lparr>u_password := h u\<rparr>) us)
     [''_id'', ''name'', ''username'', ''profilePicture''] v =
   populated us [''_id'', ''name'', ''username'', ''profilePicture''] v"
proof -
  have "(case j of
          JId i \<Rightarrow> map_option (\<lambda>u. JObj (select_only [''_id'', ''name'', ''username'', ''profilePicture''] (user_json u)))
                     (findById u_id i (map (\<lambda>u. u\<lparr>u_password := h u\<rparr>) us))
        | _ \<Rightarrow> None) =
        (case j of
          JId i \<Rightarrow> map_option (\<lambda>u. JObj (select_only [''_id'', ''name'', ''username'', ''profilePicture''] (user_json u)))
                     (findById u_id i us)
        | _ \<Rightarrow> None)" for j
    by (cases j)
       (simp_all add: findById_def find_map_same option.map_comp comp_def
          select_only_def user_json_def)
  then show ?thesis by (simp add: populated_def cong: json.case_cong)
qed

lemma profileView_rehash:
  "profileView (map (\<lambda>u. u\<lparr>u_password := h u\<rparr>) us) (u\<lparr>u_password := p\<rparr>) = profileView us u"
  by (simp add: profileView_def populate_def populated_rehash select_minus_def user_json_def)

text \<open>
  Claim C8. Whatever \<open>GET api/users/me\<close> and \<open>GET api/users/:username\<close> answer on
  success has no \<open>password\<close> field, neither in the user's document nor in the
  populated followers and following; and both answers are the same whatever the stored
  credential hashes are: replacing every user's hash by any other value changes neither.
\<close>

theorem reads_omit_password:
  "(\<forall>v. getMe s me = Inr v \<longrightarrow> \<not> has_key ''password'' v) \<and>
   (\<forall>v. getUserByUsername s name = Inr v \<longrightarrow> \<not> has_key ''password'' v) \<and>
   getMe (s\<lparr>users := map (\<lambda>u. u\<lparr>u_password := h u\<rparr>) (users s)\<rparr>) me = getMe s me \<and>
   getUserByUsername (s\<lparr>users := map (\<lambda>u. u\<lparr>u_password := h u\<rparr>) (users s)\<rparr>) name =
     getUserByUsername s name"
proof (intro conjI)
  show "\<forall>v. getMe s me = Inr v \<longrightarrow> \<not> has_key ''password'' v"
    by (auto simp: getMe_def profileView_no_password split: option.splits)
  show "\<forall>v. getUserByUsername s name = Inr v \<longrightarrow> \<not> has_key ''password'' v"
    by (auto simp: getUserByUsername_def profileView_no_password split: option.splits)
  show "getMe (s\<lparr>users := map (\<lambda>u. u\<lparr>u_password := h u\<rparr>) (users s)\<rparr>) me = getMe s me"
    by (simp add: getMe_def findById_def find_map_same profileView_rehash split: option.split)
  show "getUserByUsername (s\<lparr>users := map (\<lambda>u. u\<lparr>u_password := h u\<rparr>) (users s)\<rparr>) name =
     getUserByUsername s name"
    by (simp add: getUserByUsername_def find_map_same profileView_rehash split: option.split)
qed


theorem reads_omit_password_witness:
  "has_key ''password'' (JObj (user_json alice)) \<and>
   getMe exampleDb 1 = Inr (profileView (users exampleDb) alice) \<and>
   \<not> has_key ''password'' (profileView (users exampleDb) alice) \<and>
   getUserByUsername exampleDb ''bob'' = Inr (profileView (users exampleDb) bob) \<and>
   \<not> has_key ''password'' (profileView (users exampleDb) bob)"
proof -
  have stored: "has_key ''password'' (JObj (user_json alice))"
    by (simp add: user_json_def)
  have me: "getMe exampleDb 1 = Inr (profileView (users exampleDb) alice)"
    by (simp add: getMe_def findById_def example_defs)
  have name: "getUserByUsername exampleDb ''bob'' = Inr (profileView (users exampleDb) bob)"
    by (simp add: getUserByUsername_def example_defs)
  from reads_omit_password [of exampleDb 1 "''bob''"] stored me name show ?thesis by blast
qed

section \<open>Following and unfollowing\<close>

lemma render_ten: "toString 10 = ''00000000000000000000000a''"
  by code_simp

lemma render_eleven: "toString 11 = ''00000000000000000000000b''"
  by code_simp

lemma cast_examples:
  "castObjectId ''00000000000000000000000a'' = Some 10"
  "castObjectId ''00000000000000000000000A'' = Some 10"
  "castObjectId ''00000000000000000000000b'' = Some 11"
  "castObjectId ''00000000000000000000000B'' = Some 11"
  by code_simp+

text \<open>
  Claim C2. The claim expects a second follow call to remove both edges, no sequence
  ever to hold a duplicate, and (with the spec) no user to follow itself. The handler
  does so only when the identifier in the URL is written as \<open>toString()\<close> renders it.
  Dana (10) following Erin (11) through the upper-case rendering of Erin's identifier
  is answered "User followed" the first time and again the second time, which leaves
  Erin twice in Dana's following and Dana twice in Erin's followers; the lower-case
  rendering, after the first call, unfollows. And Dana following the upper-case
  rendering of her own identifier passes the self-follow test and puts Dana in her own
  following and followers, where the lower-case rendering is refused with 400.
\<close>

theorem follow_noncanonical_id:
  "followUser followDb 10 ''00000000000000000000000B'' =
     (Inr ''User followed'',
      followDb\<lparr>users := [dana\<lparr>u_following := [11]\<rparr>, erin\<lparr>u_followers := [10]\<rparr>]\<rparr>) \<and>
   followUser (followDb\<lparr>users := [dana\<lparr>u_following := [11]\<rparr>, erin\<lparr>u_followers := [10]\<rparr>]\<rparr>)
       10 ''00000000000000000000000B'' =
     (Inr ''User followed'',
      followDb\<lparr>users := [dana\<lparr>u_following := [11, 11]\<rparr>, erin\<lparr>u_followers := [10, 10]\<rparr>]\<rparr>) \<and>
   followUser (followDb\<lparr>users := [dana\<lparr>u_following := [11]\<rparr>, erin\<lparr>u_followers := [10]\<rparr>]\<rparr>)
       10 ''00000000000000000000000b'' =
     (Inr ''User unfollowed'', followDb) \<and>
   followUser followDb 10 ''00000000000000000000000A'' =
     (Inr ''User followed'',
      followDb\<lparr>users := [dana\<lparr>u_following := [10], u_followers := [10]\<rparr>, erin]\<rparr>) \<and>
   followUser followDb 10 ''00000000000000000000000a'' =
     (Inl (BadRequest ''You cannot follow yourself''), followDb)"
  by (simp add: followUser_def render_ten render_eleven cast_examples findById_def push_def
      pull_def followDb_def dana_def erin_def)

end
